theory Spec2Isabelle
  imports Complex_Main "HOL-Library.Multiset"
begin

section \<open>Voice pipeline agent: \<^verbatim>\<open>src/agent/agent.py\<close>\<close>

text \<open>
  The module defines one tool (\<^verbatim>\<open>saw_sheet\<close>), the frame capture
  (\<^verbatim>\<open>get_video_track\<close>, \<^verbatim>\<open>get_latest_image\<close>) and the job entry point with its
  two callbacks (\<^verbatim>\<open>before_llm_cb\<close>, \<^verbatim>\<open>on_metrics_collected\<close>).

  Every function is embedded as a HOL function that returns its Python outcome together
  with the list of effects it performs, in the order it performs them. A raised
  exception is the \<open>Inl\<close> of a sum; a returned value is the \<open>Inr\<close>. What the LiveKit
  objects answer (whether a stream can be opened, what its first read gives, whether
  the room connects) is a parameter of the model.
\<close>

subsection \<open>Exceptions\<close>

text \<open>
  Python's built-in hierarchy, as far as the handler \<^verbatim>\<open>except Exception\<close> of
  \<^verbatim>\<open>get_latest_image\<close> tells classes apart: \<^verbatim>\<open>asyncio.CancelledError\<close>,
  \<^verbatim>\<open>KeyboardInterrupt\<close> and \<^verbatim>\<open>SystemExit\<close> derive from \<^verbatim>\<open>BaseException\<close> only.
\<close>

datatype exception_class =
  ValueError | RuntimeError | KeyError | ConnectionError
  | CancelledError | KeyboardInterrupt | SystemExit

datatype py_exception = Raised (exc_class: exception_class) (exc_str: string)

fun is_Exception_class :: "exception_class \<Rightarrow> bool" where
  "is_Exception_class ValueError = True"
| "is_Exception_class RuntimeError = True"
| "is_Exception_class KeyError = True"
| "is_Exception_class ConnectionError = True"
| "is_Exception_class CancelledError = False"
| "is_Exception_class KeyboardInterrupt = False"
| "is_Exception_class SystemExit = False"

definition isinstance_Exception :: "py_exception \<Rightarrow> bool" where
  "isinstance_Exception e = is_Exception_class (exc_class e)"

subsection \<open>Effects\<close>

datatype log_level = DEBUG | INFO | ERROR

datatype track_class = RemoteVideoTrack | RemoteAudioTrack | LocalVideoTrack | LocalAudioTrack

record track =
  sid :: string
  track_class :: track_class

record video_frame =
  width :: nat
  height :: nat
  data :: "nat list"

datatype role = System | User | Assistant | Tool

record chat_image =
  image :: video_frame

datatype content_part = TextPart string | ImagePart chat_image

datatype content = Str string | Parts "content_part list"

record chat_message =
  role :: role
  content :: content

record chat_ctx =
  messages :: "chat_message list"

record agent_options =
  llm_model :: string
  tts_voice :: string
  min_endpointing_delay :: real
  max_endpointing_delay :: real
  initial_chat_ctx :: chat_ctx

datatype auto_subscribe = SUBSCRIBE_ALL | SUBSCRIBE_NONE | AUDIO_ONLY | VIDEO_ONLY

text \<open>
  The effects of the module on the outside: log records, the life of a
  \<^verbatim>\<open>rtc.VideoStream\<close>, and the calls the entry point makes on the job context and
  on the agent (\<^verbatim>\<open>agent.start(room, participant)\<close> is recorded with the room's name
  and the participant's identity, \<^verbatim>\<open>agent.say(text, allow_interruptions)\<close> with both
  arguments).
\<close>

datatype effect =
  Log log_level string
  | StreamOpened track
  | StreamClosed track
  | Connect auto_subscribe
  | WaitForParticipant
  | CreateAgent agent_options
  | RegisterHandler string
  | StartAgent string string
  | Say string bool

subsection \<open>The tool \<^verbatim>\<open>AssistantFnc.saw_sheet\<close>\<close>

definition newline :: char where
  "newline = CHR 0x0A"

definition saw_sheet :: "string \<Rightarrow> string \<Rightarrow> string \<times> effect list" where
  "saw_sheet sheet_name sheet_url =
     (''I just saw a Google Sheet'',
      [Log INFO (''################'' @ [newline, newline] @ ''Saw a sheet '' @ sheet_name
                 @ '' at '' @ sheet_url)])"

subsection \<open>The room and \<^verbatim>\<open>get_video_track\<close>\<close>

text \<open>
  \<^verbatim>\<open>room.remote_participants\<close> and \<^verbatim>\<open>participant.track_publications\<close> are
  dictionaries, iterated in insertion order: association lists. The \<^verbatim>\<open>track\<close> of a
  publication is \<^verbatim>\<open>None\<close> until the track is subscribed.
\<close>

record track_publication =
  track :: "track option"

record participant =
  track_publications :: "(string \<times> track_publication) list"

record room =
  name :: string
  remote_participants :: "(string \<times> participant) list"

definition isinstance_RemoteVideoTrack :: "track \<Rightarrow> bool" where
  "isinstance_RemoteVideoTrack t = (track_class t = RemoteVideoTrack)"

text \<open>The inner loop, over the publications of one participant.\<close>

fun scan_publications :: "(string \<times> track_publication) list \<Rightarrow> track option" where
  "scan_publications [] = None"
| "scan_publications ((track_id, track_publication) # rest) =
     (case track track_publication of
        None \<Rightarrow> scan_publications rest
      | Some t \<Rightarrow>
          if isinstance_RemoteVideoTrack t then Some t else scan_publications rest)"

text \<open>The outer loop, over the participants; the result carries the participant's id,
  which the log record names.\<close>

fun scan_participants :: "(string \<times> participant) list \<Rightarrow> (string \<times> track) option" where
  "scan_participants [] = None"
| "scan_participants ((participant_id, participant) # rest) =
     (case scan_publications (track_publications participant) of
        Some t \<Rightarrow> Some (participant_id, t)
      | None \<Rightarrow> scan_participants rest)"

definition get_video_track :: "room \<Rightarrow> (py_exception + track) \<times> effect list" where
  "get_video_track room =
     (case scan_participants (remote_participants room) of
        Some (participant_id, t) \<Rightarrow>
          (Inr t,
           [Log INFO (''Found video track '' @ sid t @ '' from participant '' @ participant_id)])
      | None \<Rightarrow>
          (Inl (Raised ValueError ''No remote video track found in the room''), []))"

text \<open>
  The reading of the claim about \<^verbatim>\<open>get_video_track\<close>, in the spec's words: all
  publications of all remote participants, in iteration order, and the first of them
  whose track is present and is a remote video track.
\<close>

definition all_publications :: "room \<Rightarrow> track_publication list" where
  "all_publications room =
     concat (map (\<lambda>(participant_id, participant). map snd (track_publications participant))
                 (remote_participants room))"

definition publishes_remote_video :: "track_publication \<Rightarrow> bool" where
  "publishes_remote_video p =
     (case track p of None \<Rightarrow> False | Some t \<Rightarrow> track_class t = RemoteVideoTrack)"

definition first_remote_video_publication :: "room \<Rightarrow> track_publication option" where
  "first_remote_video_publication room = find publishes_remote_video (all_publications room)"

subsection \<open>\<^verbatim>\<open>get_latest_image\<close>\<close>

text \<open>
  What the LiveKit stream answers: \<^verbatim>\<open>rtc.VideoStream(video_track)\<close> constructs the
  stream or raises, and the first step of \<^verbatim>\<open>async for event in video_stream\<close>
  yields an event, ends the iteration, or raises. These are the three places of the
  \<^verbatim>\<open>try\<close> body where an error can arise: the lookup, the subscription and the
  decoding. \<^verbatim>\<open>await video_stream.aclose()\<close> completes or raises as well; it
  stands in the \<^verbatim>\<open>finally\<close> block, outside the reach of the handler. The effect
  \<open>StreamClosed\<close> records that \<^verbatim>\<open>aclose\<close> was called on the stream.
\<close>

datatype read_outcome = FrameEvent video_frame | EndOfStream | ReadRaised py_exception

record stream_env =
  open_stream :: "track \<Rightarrow> py_exception option"
  first_read :: "track \<Rightarrow> read_outcome"
  close_stream :: "track \<Rightarrow> py_exception option"

text \<open>
  The body of the \<^verbatim>\<open>try\<close>: its outcome, the value of the variable
  \<^verbatim>\<open>video_stream\<close> when the body is left, and the effects. An iteration that ends
  without an event leaves the loop, and the function falls off its end: Python returns
  \<^verbatim>\<open>None\<close>.
\<close>

definition try_body ::
  "stream_env \<Rightarrow> room \<Rightarrow> (py_exception + video_frame option) \<times> track option \<times> effect list" where
  "try_body env room =
     (case get_video_track room of
        (Inl e, fx) \<Rightarrow> (Inl e, None, fx)
      | (Inr video_track, fx) \<Rightarrow>
          (case open_stream env video_track of
             Some e \<Rightarrow> (Inl e, None, fx)
           | None \<Rightarrow>
               (case first_read env video_track of
                  FrameEvent frame \<Rightarrow>
                    (Inr (Some frame), Some video_track,
                     fx @ [StreamOpened video_track, Log DEBUG ''Captured latest video frame''])
                | EndOfStream \<Rightarrow>
                    (Inr None, Some video_track, fx @ [StreamOpened video_track])
                | ReadRaised e \<Rightarrow>
                    (Inl e, Some video_track, fx @ [StreamOpened video_track]))))"

text \<open>\<^verbatim>\<open>except Exception as e\<close>: log and return \<^verbatim>\<open>None\<close>; any other exception
  passes through.\<close>

definition except_Exception ::
  "(py_exception + video_frame option) \<Rightarrow> (py_exception + video_frame option) \<times> effect list" where
  "except_Exception r =
     (case r of
        Inr v \<Rightarrow> (Inr v, [])
      | Inl e \<Rightarrow>
          if isinstance_Exception e
          then (Inr None, [Log ERROR (''Failed to get latest image: '' @ exc_str e)])
          else (Inl e, []))"

text \<open>
  \<^verbatim>\<open>finally: if video_stream: await video_stream.aclose()\<close>. The block runs on every
  way out of the \<^verbatim>\<open>try\<close> statement, with the pending outcome \<open>r\<close>: a value to
  return or an exception on its way to the caller. An exception raised by
  \<^verbatim>\<open>aclose\<close> replaces either.
\<close>

definition finally_aclose ::
  "stream_env \<Rightarrow> track option \<Rightarrow> (py_exception + video_frame option)
     \<Rightarrow> (py_exception + video_frame option) \<times> effect list" where
  "finally_aclose env video_stream r =
     (case video_stream of
        None \<Rightarrow> (r, [])
      | Some s \<Rightarrow>
          (case close_stream env s of
             None \<Rightarrow> (r, [StreamClosed s])
           | Some e \<Rightarrow> (Inl e, [StreamClosed s])))"

definition get_latest_image ::
  "stream_env \<Rightarrow> room \<Rightarrow> (py_exception + video_frame option) \<times> effect list" where
  "get_latest_image env room =
     (case try_body env room of
        (r, video_stream, fx) \<Rightarrow>
          (case except_Exception r of
             (r', fx') \<Rightarrow>
               (case finally_aclose env video_stream r' of
                  (r'', fx'') \<Rightarrow> (r'', fx @ fx' @ fx''))))"

text \<open>The streams that a sequence of effects leaves open, given those open before.\<close>

fun open_streams :: "track list \<Rightarrow> effect list \<Rightarrow> track list" where
  "open_streams acc [] = acc"
| "open_streams acc (StreamOpened t # fx) = open_streams (t # acc) fx"
| "open_streams acc (StreamClosed t # fx) = open_streams (remove1 t acc) fx"
| "open_streams acc (_ # fx) = open_streams acc fx"

subsection \<open>The entry point and its callbacks\<close>

definition ChatContext :: chat_ctx where
  "ChatContext = \<lparr>messages = []\<rparr>"

definition ChatContext_append :: "role \<Rightarrow> string \<Rightarrow> chat_ctx \<Rightarrow> chat_ctx" where
  "ChatContext_append r text c =
     c\<lparr>messages := messages c @ [\<lparr>role = r, content = Str text\<rparr>]\<rparr>"

definition system_prompt :: string where
  "system_prompt =
     ''You are a voice assistant created by LiveKit that can both see and hear. ''
     @ ''You should use short and concise responses, avoiding unpronounceable punctuation. ''
     @ ''Don't make up any information, you can only answer questions about the information you see. ''
     @ ''If the user is not sharing a screen, you should ask them to do so. ''
     @ ''### Tools:''
     @ ''ALWAYS call the saw_sheet function if you see a Google Sheet you haven't seen before,''
     @ ''You can get the sheet name and url from the image.''
     @ ''DON'T mention this in your response, just call the tool.''"

definition initial_ctx :: chat_ctx where
  "initial_ctx = ChatContext_append System system_prompt ChatContext"

text \<open>
  \<^verbatim>\<open>before_llm_cb\<close> mutates the \<^verbatim>\<open>chat_ctx\<close> it is given: the model returns the
  context after the call next to the outcome. \<^verbatim>\<open>if latest_image:\<close> tests a
  \<^verbatim>\<open>VideoFrame\<close> object or \<^verbatim>\<open>None\<close>; the object defines neither
  \<^verbatim>\<open>__bool__\<close> nor \<^verbatim>\<open>__len__\<close>, so only \<^verbatim>\<open>None\<close> is false.
\<close>

definition before_llm_cb ::
  "stream_env \<Rightarrow> room \<Rightarrow> chat_ctx \<Rightarrow> (py_exception + unit) \<times> chat_ctx \<times> effect list" where
  "before_llm_cb env room chat_ctx =
     (case get_latest_image env room of
        (Inl e, fx) \<Rightarrow> (Inl e, chat_ctx, fx)
      | (Inr None, fx) \<Rightarrow> (Inr (), chat_ctx, fx)
      | (Inr (Some latest_image), fx) \<Rightarrow>
          (Inr (),
           chat_ctx\<lparr>messages := messages chat_ctx
              @ [\<lparr>role = User, content = Parts [ImagePart \<lparr>image = latest_image\<rparr>]\<rparr>]\<rparr>,
           fx @ [Log DEBUG ''Added latest frame to conversation context'']))"

text \<open>
  What the job context answers the entry point: whether \<^verbatim>\<open>ctx.connect\<close> and
  \<^verbatim>\<open>ctx.wait_for_participant\<close> raise, the identity of the participant, and whether
  \<^verbatim>\<open>prewarm\<close> has stored \<^verbatim>\<open>"vad"\<close> in \<^verbatim>\<open>proc.userdata\<close>.
\<close>

record job_context =
  job_room :: room
  connect :: "py_exception option"
  wait_for_participant :: "py_exception + string"
  userdata_has_vad :: bool

definition agent_options :: agent_options where
  "agent_options =
     \<lparr>llm_model = ''gemini-2.0-flash-001'',
      tts_voice = ''a38e4e85-e815-43ab-acf1-907c4688dd6c'',
      min_endpointing_delay = 0.5,
      max_endpointing_delay = 5.0,
      initial_chat_ctx = initial_ctx\<rparr>"

definition greeting :: string where
  "greeting = ''Hey, how can I help you today?''"

definition entrypoint :: "job_context \<Rightarrow> (py_exception + unit) \<times> effect list" where
  "entrypoint ctx =
     (let fx0 = [Log INFO (''connecting to room '' @ name (job_room ctx)), Connect SUBSCRIBE_ALL]
      in case connect ctx of
           Some e \<Rightarrow> (Inl e, fx0)
         | None \<Rightarrow>
             (case wait_for_participant ctx of
                Inl e \<Rightarrow> (Inl e, fx0 @ [WaitForParticipant])
              | Inr identity \<Rightarrow>
                  (let fx1 = fx0 @ [WaitForParticipant,
                         Log INFO (''starting voice assistant for participant '' @ identity)]
                   in if \<not> userdata_has_vad ctx
                      then (Inl (Raised KeyError ([CHR 0x27] @ ''vad'' @ [CHR 0x27])), fx1)
                      else (Inr (),
                            fx1 @ [CreateAgent agent_options,
                                   RegisterHandler ''metrics_collected'',
                                   StartAgent (name (job_room ctx)) identity,
                                   Say greeting True]))))"

text \<open>
  \<^verbatim>\<open>on_metrics_collected\<close> makes two calls with the event it receives. The state it
  works on is the list of calls made so far and the collector.
\<close>

datatype 'm metrics_call = LogMetrics 'm | CollectMetrics 'm

text \<open>
  Modelled from the spec: the Metrics Aggregator. \<^verbatim>\<open>metrics.UsageCollector\<close> is a
  class of the LiveKit library, of which the source only calls the constructor and
  \<^verbatim>\<open>collect\<close>. The spec gives its contract as \<^verbatim>\<open>collect(event)\<close> and
  \<^verbatim>\<open>report() -> AggregateUsage\<close>, with additive accumulation: the collector holds
  a total, and \<^verbatim>\<open>collect\<close> adds to it the usage that the event records.
\<close>

record 'u usage_collector =
  aggregate :: 'u

definition UsageCollector :: "('u::comm_monoid_add) usage_collector" where
  "UsageCollector = \<lparr>aggregate = 0\<rparr>"

definition collect ::
  "('m \<Rightarrow> 'u::comm_monoid_add) \<Rightarrow> 'm \<Rightarrow> 'u usage_collector \<Rightarrow> 'u usage_collector" where
  "collect usage event c = c\<lparr>aggregate := aggregate c + usage event\<rparr>"

definition report :: "'u usage_collector \<Rightarrow> 'u" where
  "report c = aggregate c"

definition on_metrics_collected ::
  "('m \<Rightarrow> 'u::comm_monoid_add) \<Rightarrow> 'm \<Rightarrow> 'm metrics_call list \<times> 'u usage_collector
     \<Rightarrow> 'm metrics_call list \<times> 'u usage_collector" where
  "on_metrics_collected usage agent_metrics st =
     (fst st @ [LogMetrics agent_metrics, CollectMetrics agent_metrics],
      collect usage agent_metrics (snd st))"

text \<open>The events of a session, handled one after the other as the agent emits them.\<close>

definition handle_events ::
  "('m \<Rightarrow> 'u::comm_monoid_add) \<Rightarrow> 'm list \<Rightarrow> 'm metrics_call list \<times> 'u usage_collector" where
  "handle_events usage events =
     foldl (\<lambda>st m. on_metrics_collected usage m st) ([], UsageCollector) events"

text \<open>
  The conversation contexts that the module can produce: the one the entry point builds,
  and what \<^verbatim>\<open>before_llm_cb\<close> makes of a context it is given, whatever the room and
  the stream answer.
\<close>

inductive reachable :: "chat_ctx \<Rightarrow> bool" where
  reachable_initial: "reachable initial_ctx"
| reachable_hook:
    "reachable c \<Longrightarrow> before_llm_cb env room c = (r, c', fx) \<Longrightarrow> reachable c'"

subsection \<open>Concrete rooms and streams\<close>

definition screen_share :: track where
  "screen_share = \<lparr>sid = ''TR_screen'', track_class = RemoteVideoTrack\<rparr>"

definition camera :: track where
  "camera = \<lparr>sid = ''TR_camera'', track_class = RemoteVideoTrack\<rparr>"

definition microphone :: track where
  "microphone = \<lparr>sid = ''TR_mic'', track_class = RemoteAudioTrack\<rparr>"

definition room_with_video :: room where
  "room_with_video =
     \<lparr>name = ''demo'',
      remote_participants =
        [(''alice'', \<lparr>track_publications =
            [(''a1'', \<lparr>track = Some microphone\<rparr>), (''a2'', \<lparr>track = None\<rparr>)]\<rparr>),
         (''bob'', \<lparr>track_publications =
            [(''b1'', \<lparr>track = None\<rparr>), (''b2'', \<lparr>track = Some screen_share\<rparr>),
             (''b3'', \<lparr>track = Some camera\<rparr>)]\<rparr>)]\<rparr>"

definition room_audio_only :: room where
  "room_audio_only =
     \<lparr>name = ''demo'',
      remote_participants =
        [(''alice'', \<lparr>track_publications = [(''a1'', \<lparr>track = Some microphone\<rparr>)]\<rparr>)]\<rparr>"

definition frame1 :: video_frame where
  "frame1 = \<lparr>width = 2, height = 1, data = [255, 0, 0, 255, 0, 255, 0, 255]\<rparr>"

definition env_frame :: stream_env where
  "env_frame =
     \<lparr>open_stream = (\<lambda>t. None), first_read = (\<lambda>t. FrameEvent frame1),
      close_stream = (\<lambda>t. None)\<rparr>"

definition env_empty :: stream_env where
  "env_empty =
     \<lparr>open_stream = (\<lambda>t. None), first_read = (\<lambda>t. EndOfStream),
      close_stream = (\<lambda>t. None)\<rparr>"

definition env_close_cancelled :: stream_env where
  "env_close_cancelled =
     \<lparr>open_stream = (\<lambda>t. None), first_read = (\<lambda>t. EndOfStream),
      close_stream = (\<lambda>t. Some (Raised CancelledError []))\<rparr>"

definition env_decode_error :: stream_env where
  "env_decode_error =
     \<lparr>open_stream = (\<lambda>t. None),
      first_read = (\<lambda>t. ReadRaised (Raised RuntimeError ''decode failed'')),
      close_stream = (\<lambda>t. None)\<rparr>"

definition env_subscribe_error :: stream_env where
  "env_subscribe_error =
     \<lparr>open_stream = (\<lambda>t. Some (Raised RuntimeError ''ffi error'')),
      first_read = (\<lambda>t. EndOfStream),
      close_stream = (\<lambda>t. None)\<rparr>"

definition env_cancelled :: stream_env where
  "env_cancelled =
     \<lparr>open_stream = (\<lambda>t. None),
      first_read = (\<lambda>t. ReadRaised (Raised CancelledError [])),
      close_stream = (\<lambda>t. None)\<rparr>"

definition job_ok :: job_context where
  "job_ok =
     \<lparr>job_room = room_with_video, connect = None,
      wait_for_participant = Inr ''bob'', userdata_has_vad = True\<rparr>"

section \<open>Properties\<close>

subsection \<open>\<^verbatim>\<open>get_video_track\<close> finds the first remote video track\<close>

lemma scan_publications_find:
  "scan_publications pubs = Option.bind (find publishes_remote_video (map snd pubs)) track"
  by (induction pubs)
     (auto simp: publishes_remote_video_def isinstance_RemoteVideoTrack_def split: option.splits)

lemma scan_publications_None:
  "scan_publications pubs = None \<longleftrightarrow> find publishes_remote_video (map snd pubs) = None"
  by (induction pubs)
     (auto simp: publishes_remote_video_def isinstance_RemoteVideoTrack_def split: option.splits)

lemma find_append:
  "find P (xs @ ys) = (case find P xs of Some x \<Rightarrow> Some x | None \<Rightarrow> find P ys)"
  by (induction xs) auto

lemma scan_participants_find:
  "map_option snd (scan_participants ps) =
     Option.bind (find publishes_remote_video
        (concat (map (\<lambda>(participant_id, participant). map snd (track_publications participant)) ps)))
        track"
proof (induction ps)
  case Nil
  then show ?case by simp
next
  case (Cons p ps)
  obtain pid part where p: "p = (pid, part)" by (cases p)
  show ?case
  proof (cases "scan_publications (track_publications part)")
    case None
    then have "find publishes_remote_video (map snd (track_publications part)) = None"
      by (simp add: scan_publications_None)
    with None Cons p show ?thesis by (simp add: find_append)
  next
    case (Some t)
    then obtain q where q: "find publishes_remote_video (map snd (track_publications part)) = Some q"
      and "track q = Some t"
      by (auto simp: scan_publications_find split: Option.bind_splits)
    with Some p show ?thesis by (simp add: find_append)
  qed
qed

text \<open>
  Claim C4. \<^verbatim>\<open>get_video_track\<close> goes through the remote participants and, for each,
  through its publications, in iteration order, and returns the track of the first
  publication whose track is present and is a remote video track. When no publication
  of any remote participant is one, it raises \<^verbatim>\<open>ValueError\<close> (the spec's
  \<^verbatim>\<open>NoVideoSource\<close>) instead of returning a track.
\<close>

theorem get_video_track_first_remote_video:
  "fst (get_video_track room) =
     (case Option.bind (first_remote_video_publication room) track of
        Some t \<Rightarrow> Inr t
      | None \<Rightarrow> Inl (Raised ValueError ''No remote video track found in the room''))"
proof -
  have "map_option snd (scan_participants (remote_participants room)) =
          Option.bind (first_remote_video_publication room) track"
    by (simp add: scan_participants_find first_remote_video_publication_def all_publications_def)
  then show ?thesis
    by (cases "scan_participants (remote_participants room)")
       (auto simp: get_video_track_def split: option.splits)
qed

theorem get_video_track_first_remote_video_witness:
  "first_remote_video_publication room_with_video = Some \<lparr>track = Some screen_share\<rparr>
   \<and> fst (get_video_track room_with_video) = Inr screen_share
   \<and> first_remote_video_publication room_audio_only = None
   \<and> fst (get_video_track room_audio_only)
       = Inl (Raised ValueError ''No remote video track found in the room'')"
proof -
  have a: "first_remote_video_publication room_with_video = Some \<lparr>track = Some screen_share\<rparr>"
    by (simp add: first_remote_video_publication_def all_publications_def room_with_video_def
        publishes_remote_video_def screen_share_def microphone_def camera_def)
  have b: "first_remote_video_publication room_audio_only = None"
    by (simp add: first_remote_video_publication_def all_publications_def room_audio_only_def
        publishes_remote_video_def microphone_def)
  from a b get_video_track_first_remote_video [of room_with_video]
    get_video_track_first_remote_video [of room_audio_only]
  show ?thesis by simp
qed

subsection \<open>\<^verbatim>\<open>saw_sheet\<close> only acknowledges\<close>

text \<open>
  Claim C6. Whatever the two string arguments are, \<^verbatim>\<open>saw_sheet\<close> returns the same
  fixed acknowledgment, so the returned value does not depend on them, and its only
  effect is one log record at level INFO.
\<close>

theorem saw_sheet_fixed_acknowledgment:
  "fst (saw_sheet sheet_name sheet_url) = ''I just saw a Google Sheet''
   \<and> fst (saw_sheet sheet_name sheet_url) = fst (saw_sheet sheet_name' sheet_url')
   \<and> (\<exists>msg. snd (saw_sheet sheet_name sheet_url) = [Log INFO msg])"
  by (simp add: saw_sheet_def)

subsection \<open>The paths through \<^verbatim>\<open>get_latest_image\<close>\<close>

lemma get_video_track_cases:
  obtains (found) t pid where
      "get_video_track room =
         (Inr t, [Log INFO (''Found video track '' @ sid t @ '' from participant '' @ pid)])"
  | (missing)
      "get_video_track room = (Inl (Raised ValueError ''No remote video track found in the room''), [])"
  by (cases "scan_participants (remote_participants room)") (auto simp: get_video_track_def)

lemma try_body_cases:
  obtains (lookup_failed) e where "try_body env room = (Inl e, None, snd (get_video_track room))"
      "fst (get_video_track room) = Inl e"
  | (open_failed) t e where "try_body env room = (Inl e, None, snd (get_video_track room))"
      "fst (get_video_track room) = Inr t" "open_stream env t = Some e"
  | (frame) t f where
      "try_body env room =
         (Inr (Some f), Some t,
          snd (get_video_track room) @ [StreamOpened t, Log DEBUG ''Captured latest video frame''])"
      "fst (get_video_track room) = Inr t" "open_stream env t = None"
      "first_read env t = FrameEvent f"
  | (ended) t where
      "try_body env room = (Inr None, Some t, snd (get_video_track room) @ [StreamOpened t])"
      "fst (get_video_track room) = Inr t" "open_stream env t = None"
      "first_read env t = EndOfStream"
  | (read_failed) t e where
      "try_body env room = (Inl e, Some t, snd (get_video_track room) @ [StreamOpened t])"
      "fst (get_video_track room) = Inr t" "open_stream env t = None"
      "first_read env t = ReadRaised e"
proof (cases "get_video_track room")
  case (Pair r fx)
  show ?thesis
  proof (cases r)
    case (Inl e)
    with Pair lookup_failed show ?thesis by (simp add: try_body_def)
  next
    case (Inr t)
    show ?thesis
    proof (cases "open_stream env t")
      case (Some e)
      with Pair Inr open_failed show ?thesis by (simp add: try_body_def)
    next
      case None
      show ?thesis
      proof (cases "first_read env t")
        case (FrameEvent f)
        with Pair Inr None frame show ?thesis by (simp add: try_body_def)
      next
        case EndOfStream
        with Pair Inr None ended show ?thesis by (simp add: try_body_def)
      next
        case (ReadRaised e)
        with Pair Inr None read_failed show ?thesis by (simp add: try_body_def)
      qed
    qed
  qed
qed

lemma open_streams_append:
  "open_streams acc (xs @ ys) = open_streams (open_streams acc xs) ys"
  by (induction acc xs rule: open_streams.induct) auto

lemma open_streams_logs:
  "\<forall>x \<in> set xs. \<exists>l m. x = Log l m \<Longrightarrow> open_streams acc xs = acc"
  by (induction acc xs rule: open_streams.induct) auto

lemma get_latest_image_shape:
  obtains (unopened) r logs where
      "get_latest_image env room = (r, logs)" "\<forall>x \<in> set logs. \<exists>l m. x = Log l m"
  | (opened) r t pre mid where
      "get_latest_image env room = (r, pre @ [StreamOpened t] @ mid @ [StreamClosed t])"
      "\<forall>x \<in> set (pre @ mid). \<exists>l m. x = Log l m"
proof (cases rule: try_body_cases [of env room])
  case (lookup_failed e)
  have logs: "\<forall>x \<in> set (snd (get_video_track room)). \<exists>l m. x = Log l m"
    by (cases rule: get_video_track_cases [of room]) auto
  from lookup_failed(2) have "isinstance_Exception e"
    by (cases rule: get_video_track_cases [of room]) (auto simp: isinstance_Exception_def)
  with lookup_failed have "get_latest_image env room =
      (Inr None, snd (get_video_track room)
         @ [Log ERROR (''Failed to get latest image: '' @ exc_str e)])"
    by (simp add: get_latest_image_def except_Exception_def finally_aclose_def)
  moreover from logs have "\<forall>x \<in> set (snd (get_video_track room)
      @ [Log ERROR (''Failed to get latest image: '' @ exc_str e)]). \<exists>l m. x = Log l m"
    by auto
  ultimately show ?thesis by (rule unopened)
next
  case (open_failed t e)
  have logs: "\<forall>x \<in> set (snd (get_video_track room)). \<exists>l m. x = Log l m"
    by (cases rule: get_video_track_cases [of room]) auto
  show ?thesis
  proof (cases "isinstance_Exception e")
    case True
    with open_failed have "get_latest_image env room =
        (Inr None, snd (get_video_track room)
           @ [Log ERROR (''Failed to get latest image: '' @ exc_str e)])"
      by (simp add: get_latest_image_def except_Exception_def finally_aclose_def)
    moreover from logs have "\<forall>x \<in> set (snd (get_video_track room)
        @ [Log ERROR (''Failed to get latest image: '' @ exc_str e)]). \<exists>l m. x = Log l m"
      by auto
    ultimately show ?thesis by (rule unopened)
  next
    case False
    with open_failed have "get_latest_image env room = (Inl e, snd (get_video_track room))"
      by (simp add: get_latest_image_def except_Exception_def finally_aclose_def)
    then show ?thesis using logs by (rule unopened)
  qed
next
  case (frame t f)
  then have "get_latest_image env room =
      (fst (get_latest_image env room), snd (get_video_track room) @ [StreamOpened t]
         @ [Log DEBUG ''Captured latest video frame''] @ [StreamClosed t])"
    by (simp add: get_latest_image_def except_Exception_def finally_aclose_def
        split: option.splits)
  moreover have "\<forall>x \<in> set (snd (get_video_track room) @ [Log DEBUG ''Captured latest video frame'']).
      \<exists>l m. x = Log l m"
    by (cases rule: get_video_track_cases [of room]) auto
  ultimately show ?thesis by (rule opened)
next
  case (ended t)
  then have "get_latest_image env room =
      (fst (get_latest_image env room),
       snd (get_video_track room) @ [StreamOpened t] @ [] @ [StreamClosed t])"
    by (simp add: get_latest_image_def except_Exception_def finally_aclose_def
        split: option.splits)
  moreover have "\<forall>x \<in> set (snd (get_video_track room) @ []). \<exists>l m. x = Log l m"
    by (cases rule: get_video_track_cases [of room]) auto
  ultimately show ?thesis by (rule opened)
next
  case (read_failed t e)
  have logs: "\<forall>x \<in> set (snd (get_video_track room)). \<exists>l m. x = Log l m"
    by (cases rule: get_video_track_cases [of room]) auto
  show ?thesis
  proof (cases "isinstance_Exception e")
    case True
    with read_failed have "get_latest_image env room =
        (fst (get_latest_image env room), snd (get_video_track room) @ [StreamOpened t]
           @ [Log ERROR (''Failed to get latest image: '' @ exc_str e)] @ [StreamClosed t])"
      by (simp add: get_latest_image_def except_Exception_def finally_aclose_def
          split: option.splits)
    moreover from logs have "\<forall>x \<in> set (snd (get_video_track room)
        @ [Log ERROR (''Failed to get latest image: '' @ exc_str e)]). \<exists>l m. x = Log l m"
      by auto
    ultimately show ?thesis by (rule opened)
  next
    case False
    with read_failed have "get_latest_image env room =
        (fst (get_latest_image env room),
         snd (get_video_track room) @ [StreamOpened t] @ [] @ [StreamClosed t])"
      by (simp add: get_latest_image_def except_Exception_def finally_aclose_def
          split: option.splits)
    moreover from logs have "\<forall>x \<in> set (snd (get_video_track room) @ []). \<exists>l m. x = Log l m"
      by auto
    ultimately show ?thesis by (rule opened)
  qed
qed

lemma get_video_track_room_with_video:
  "get_video_track room_with_video =
     (Inr screen_share, [Log INFO ''Found video track TR_screen from participant bob''])"
  by (simp add: get_video_track_def room_with_video_def isinstance_RemoteVideoTrack_def
      screen_share_def microphone_def camera_def)

lemma get_video_track_room_audio_only:
  "get_video_track room_audio_only =
     (Inl (Raised ValueError ''No remote video track found in the room''), [])"
  by (simp add: get_video_track_def room_audio_only_def isinstance_RemoteVideoTrack_def
      microphone_def)

lemma get_latest_image_env_frame:
  "get_latest_image env_frame room_with_video =
     (Inr (Some frame1),
      [Log INFO ''Found video track TR_screen from participant bob'', StreamOpened screen_share,
       Log DEBUG ''Captured latest video frame'', StreamClosed screen_share])"
  by (simp add: get_latest_image_def try_body_def get_video_track_room_with_video env_frame_def
      except_Exception_def finally_aclose_def)

lemma get_latest_image_env_empty:
  "get_latest_image env_empty room_with_video =
     (Inr None,
      [Log INFO ''Found video track TR_screen from participant bob'', StreamOpened screen_share,
       StreamClosed screen_share])"
  by (simp add: get_latest_image_def try_body_def get_video_track_room_with_video env_empty_def
      except_Exception_def finally_aclose_def)

lemma get_latest_image_env_decode_error:
  "get_latest_image env_decode_error room_with_video =
     (Inr None,
      [Log INFO ''Found video track TR_screen from participant bob'', StreamOpened screen_share,
       Log ERROR ''Failed to get latest image: decode failed'', StreamClosed screen_share])"
  by (simp add: get_latest_image_def try_body_def get_video_track_room_with_video
      env_decode_error_def except_Exception_def finally_aclose_def isinstance_Exception_def)

lemma get_latest_image_env_subscribe_error:
  "get_latest_image env_subscribe_error room_with_video =
     (Inr None,
      [Log INFO ''Found video track TR_screen from participant bob'',
       Log ERROR ''Failed to get latest image: ffi error''])"
  by (simp add: get_latest_image_def try_body_def get_video_track_room_with_video
      env_subscribe_error_def except_Exception_def finally_aclose_def isinstance_Exception_def)

lemma get_latest_image_env_cancelled:
  "get_latest_image env_cancelled room_with_video =
     (Inl (Raised CancelledError []),
      [Log INFO ''Found video track TR_screen from participant bob'', StreamOpened screen_share,
       StreamClosed screen_share])"
  by (simp add: get_latest_image_def try_body_def get_video_track_room_with_video
      env_cancelled_def except_Exception_def finally_aclose_def isinstance_Exception_def)

lemma get_latest_image_env_close_cancelled:
  "get_latest_image env_close_cancelled room_with_video =
     (Inl (Raised CancelledError []),
      [Log INFO ''Found video track TR_screen from participant bob'', StreamOpened screen_share,
       StreamClosed screen_share])"
  by (simp add: get_latest_image_def try_body_def get_video_track_room_with_video
      env_close_cancelled_def except_Exception_def finally_aclose_def)

lemma get_latest_image_no_video:
  "get_latest_image env room_audio_only =
     (Inr None,
      [Log ERROR ''Failed to get latest image: No remote video track found in the room''])"
  by (simp add: get_latest_image_def try_body_def get_video_track_room_audio_only
      except_Exception_def finally_aclose_def isinstance_Exception_def)

text \<open>
  Claim C5. On every path of \<^verbatim>\<open>get_latest_image\<close> on which a video stream was
  opened (the first frame is returned, the stream ends, or an exception is raised,
  caught or not), \<^verbatim>\<open>aclose\<close> is called on the stream before the call is over,
  whatever \<^verbatim>\<open>aclose\<close> itself answers, and closing is the last thing the call
  does: between opening and closing there are only log records. The call leaves open
  exactly the streams that were open before it, and it closes no stream that it has not
  opened.
\<close>

theorem get_latest_image_closes_stream:
  "open_streams acc (snd (get_latest_image env room)) = acc
   \<and> (StreamOpened t \<in> set (snd (get_latest_image env room)) \<longrightarrow>
        (\<exists>pre mid. snd (get_latest_image env room) = pre @ [StreamOpened t] @ mid @ [StreamClosed t]
           \<and> (\<forall>x \<in> set (pre @ mid). \<exists>l m. x = Log l m)))
   \<and> (StreamClosed t \<in> set (snd (get_latest_image env room)) \<longrightarrow>
        StreamOpened t \<in> set (snd (get_latest_image env room)))"
proof (cases rule: get_latest_image_shape [of env room])
  case (unopened r logs)
  have "StreamOpened t \<notin> set logs" "StreamClosed t \<notin> set logs"
    using unopened(2) by blast+
  with unopened show ?thesis by (simp add: open_streams_logs)
next
  case (opened r t' pre mid)
  let ?fx = "pre @ [StreamOpened t'] @ mid @ [StreamClosed t']"
  from opened(2) have pre: "\<forall>x \<in> set pre. \<exists>l m. x = Log l m"
    and mid: "\<forall>x \<in> set mid. \<exists>l m. x = Log l m" by simp_all
  have notin: "StreamOpened t \<notin> set pre" "StreamOpened t \<notin> set mid"
    "StreamClosed t \<notin> set pre" "StreamClosed t \<notin> set mid"
    using pre mid by blast+
  have fx: "snd (get_latest_image env room) = ?fx"
    using opened(1) by simp
  have c1: "open_streams acc ?fx = acc"
    by (simp add: open_streams_append open_streams_logs [OF pre] open_streams_logs [OF mid])
  have c2: "\<exists>pre' mid'. ?fx = pre' @ [StreamOpened t] @ mid' @ [StreamClosed t]
      \<and> (\<forall>x \<in> set (pre' @ mid'). \<exists>l m. x = Log l m)" if "StreamOpened t \<in> set ?fx"
  proof -
    from that notin have "t = t'" by simp
    with opened(2) show ?thesis by blast
  qed
  have c3: "StreamOpened t \<in> set ?fx" if "StreamClosed t \<in> set ?fx"
  proof -
    from that notin have "t = t'" by simp
    then show ?thesis by simp
  qed
  show ?thesis
    unfolding fx using c1 c2 c3 by blast
qed

theorem get_latest_image_closes_stream_witness:
  "StreamOpened screen_share \<in> set (snd (get_latest_image env_frame room_with_video))
   \<and> (\<exists>pre mid. snd (get_latest_image env_frame room_with_video)
          = pre @ [StreamOpened screen_share] @ mid @ [StreamClosed screen_share]
        \<and> (\<forall>x \<in> set (pre @ mid). \<exists>l m. x = Log l m))
   \<and> open_streams [camera] (snd (get_latest_image env_frame room_with_video)) = [camera]"
proof -
  have h: "StreamOpened screen_share \<in> set (snd (get_latest_image env_frame room_with_video))"
    by (simp add: get_latest_image_env_frame)
  from get_latest_image_closes_stream [of "[camera]" env_frame room_with_video screen_share] h
  show ?thesis by blast
qed

subsection \<open>An empty stream\<close>

lemma finally_aclose_completes:
  "\<forall>s. close_stream env s = None \<Longrightarrow>
     finally_aclose env video_stream r
       = (r, case video_stream of None \<Rightarrow> [] | Some s \<Rightarrow> [StreamClosed s])"
  by (simp add: finally_aclose_def split: option.splits)

text \<open>
  Claim C10, as amended. When a remote video track is found and its stream is opened,
  and the stream ends without an event, \<^verbatim>\<open>get_latest_image\<close> calls
  \<^verbatim>\<open>aclose\<close> on the stream right after opening it, and, when that call
  completes, returns \<^verbatim>\<open>None\<close>: it neither raises nor holds the caller. The
  outcome is then the one of a read that raises an \<^verbatim>\<open>Exception\<close>.
\<close>

theorem get_latest_image_empty_stream:
  "fst (get_video_track room) = Inr t \<and> open_stream env t = None \<and> first_read env t = EndOfStream
   \<longrightarrow> snd (get_latest_image env room)
         = snd (get_video_track room) @ [StreamOpened t, StreamClosed t]
       \<and> (close_stream env t = None \<longrightarrow>
            fst (get_latest_image env room) = Inr None
            \<and> (\<forall>e. isinstance_Exception e \<longrightarrow>
                  fst (get_latest_image (env\<lparr>first_read := (\<lambda>s. ReadRaised e)\<rparr>) room)
                    = fst (get_latest_image env room)))"
proof (intro impI, elim conjE)
  assume t: "fst (get_video_track room) = Inr t" and o: "open_stream env t = None"
    and r: "first_read env t = EndOfStream"
  from t have gv: "get_video_track room = (Inr t, snd (get_video_track room))"
    by (cases "get_video_track room") simp
  have a: "snd (get_latest_image env room)
      = snd (get_video_track room) @ [StreamOpened t, StreamClosed t]"
    by (subst get_latest_image_def, subst try_body_def, subst gv)
       (simp add: o r except_Exception_def finally_aclose_def split: option.splits)
  have b: "fst (get_latest_image env room) = Inr None" if c: "close_stream env t = None"
    by (subst get_latest_image_def, subst try_body_def, subst gv)
       (simp add: o r c except_Exception_def finally_aclose_def)
  have d: "fst (get_latest_image (env\<lparr>first_read := (\<lambda>s. ReadRaised e)\<rparr>) room) = Inr None"
    if c: "close_stream env t = None" and e: "isinstance_Exception e" for e
    by (subst get_latest_image_def, subst try_body_def, subst gv)
       (simp add: o c e except_Exception_def finally_aclose_def)
  from a b d show "snd (get_latest_image env room)
         = snd (get_video_track room) @ [StreamOpened t, StreamClosed t]
       \<and> (close_stream env t = None \<longrightarrow>
            fst (get_latest_image env room) = Inr None
            \<and> (\<forall>e. isinstance_Exception e \<longrightarrow>
                  fst (get_latest_image (env\<lparr>first_read := (\<lambda>s. ReadRaised e)\<rparr>) room)
                    = fst (get_latest_image env room)))"
    by simp
qed

theorem get_latest_image_empty_stream_witness:
  "fst (get_video_track room_with_video) = Inr screen_share
   \<and> open_stream env_empty screen_share = None
   \<and> first_read env_empty screen_share = EndOfStream
   \<and> close_stream env_empty screen_share = None
   \<and> snd (get_latest_image env_empty room_with_video)
       = [Log INFO ''Found video track TR_screen from participant bob'',
          StreamOpened screen_share, StreamClosed screen_share]
   \<and> fst (get_latest_image env_empty room_with_video) = Inr None
   \<and> isinstance_Exception (Raised RuntimeError ''decode failed'')
   \<and> fst (get_latest_image
         (env_empty\<lparr>first_read := (\<lambda>s. ReadRaised (Raised RuntimeError ''decode failed''))\<rparr>)
         room_with_video) = Inr None"
proof -
  have h: "fst (get_video_track room_with_video) = Inr screen_share
      \<and> open_stream env_empty screen_share = None
      \<and> first_read env_empty screen_share = EndOfStream"
    by (simp add: get_video_track_room_with_video env_empty_def)
  have c: "close_stream env_empty screen_share = None"
    by (simp add: env_empty_def)
  have e: "isinstance_Exception (Raised RuntimeError ''decode failed'')"
    by (simp add: isinstance_Exception_def)
  from get_latest_image_empty_stream [of room_with_video screen_share env_empty] h c
  have r: "snd (get_latest_image env_empty room_with_video)
         = snd (get_video_track room_with_video)
             @ [StreamOpened screen_share, StreamClosed screen_share]"
    and v: "fst (get_latest_image env_empty room_with_video) = Inr None"
    and s: "\<forall>e. isinstance_Exception e \<longrightarrow>
         fst (get_latest_image (env_empty\<lparr>first_read := (\<lambda>s. ReadRaised e)\<rparr>) room_with_video)
           = fst (get_latest_image env_empty room_with_video)"
    by blast+
  from r have r': "snd (get_latest_image env_empty room_with_video)
       = [Log INFO ''Found video track TR_screen from participant bob'',
          StreamOpened screen_share, StreamClosed screen_share]"
    by (simp add: get_video_track_room_with_video)
  from s e have "fst (get_latest_image
         (env_empty\<lparr>first_read := (\<lambda>s. ReadRaised (Raised RuntimeError ''decode failed''))\<rparr>)
         room_with_video) = fst (get_latest_image env_empty room_with_video)"
    by blast
  with v have s': "fst (get_latest_image
         (env_empty\<lparr>first_read := (\<lambda>s. ReadRaised (Raised RuntimeError ''decode failed''))\<rparr>)
         room_with_video) = Inr None"
    by simp
  from h c r' v e s' show ?thesis by (intro conjI) simp_all
qed

text \<open>
  The claim as stated, that the call returns \<^verbatim>\<open>None\<close> and does not raise, fails
  when the task is cancelled while it awaits \<^verbatim>\<open>aclose\<close>: the call stands in the
  \<^verbatim>\<open>finally\<close> block, no handler applies to it, and the exception replaces the
  pending return.
\<close>

theorem get_latest_image_empty_stream_close_cancelled:
  "fst (get_video_track room_with_video) = Inr screen_share
   \<and> open_stream env_close_cancelled screen_share = None
   \<and> first_read env_close_cancelled screen_share = EndOfStream
   \<and> close_stream env_close_cancelled screen_share = Some (Raised CancelledError [])
   \<and> fst (get_latest_image env_close_cancelled room_with_video) = Inl (Raised CancelledError [])
   \<and> fst (get_latest_image env_close_cancelled room_with_video) \<noteq> Inr None"
proof -
  have a: "fst (get_video_track room_with_video) = Inr screen_share"
    by (simp add: get_video_track_room_with_video)
  have b: "open_stream env_close_cancelled screen_share = None"
    "first_read env_close_cancelled screen_share = EndOfStream"
    "close_stream env_close_cancelled screen_share = Some (Raised CancelledError [])"
    by (simp_all add: env_close_cancelled_def)
  have c: "fst (get_latest_image env_close_cancelled room_with_video)
      = Inl (Raised CancelledError [])"
    by (simp add: get_latest_image_env_close_cancelled)
  from a b c show ?thesis by simp
qed

subsection \<open>What the handler catches\<close>

text \<open>
  Claim C2, as amended. Every error that is an instance of \<^verbatim>\<open>Exception\<close> and is
  raised by the track lookup (its \<^verbatim>\<open>ValueError\<close>), by the construction of the
  stream or by the read of the stream is caught and logged at level ERROR. The call
  then returns \<^verbatim>\<open>None\<close>: at once when no stream was opened, and, when one was,
  after \<^verbatim>\<open>aclose\<close> has completed. When \<^verbatim>\<open>aclose\<close> completes, an exception
  reaches the caller only if it is not an instance of \<^verbatim>\<open>Exception\<close>: the handler
  is \<^verbatim>\<open>except Exception\<close>, which lets the other subclasses of
  \<^verbatim>\<open>BaseException\<close>, such as the cancellation of the task, pass.
\<close>

theorem get_latest_image_catches_Exception:
  "(fst (get_video_track room) = Inl e \<longrightarrow>
      get_latest_image env room
        = (Inr None, snd (get_video_track room)
             @ [Log ERROR (''Failed to get latest image: '' @ exc_str e)]))
   \<and> (fst (get_video_track room) = Inr t \<and> open_stream env t = Some e
        \<and> isinstance_Exception e \<longrightarrow>
      get_latest_image env room
        = (Inr None, snd (get_video_track room)
             @ [Log ERROR (''Failed to get latest image: '' @ exc_str e)]))
   \<and> (fst (get_video_track room) = Inr t \<and> open_stream env t = None
        \<and> first_read env t = ReadRaised e \<and> isinstance_Exception e
        \<and> close_stream env t = None \<longrightarrow>
      get_latest_image env room
        = (Inr None, snd (get_video_track room)
             @ [StreamOpened t, Log ERROR (''Failed to get latest image: '' @ exc_str e),
                StreamClosed t]))
   \<and> (fst (get_latest_image env room) = Inl e \<and> (\<forall>s. close_stream env s = None) \<longrightarrow>
        \<not> isinstance_Exception e)"
proof (intro conjI impI)
  assume l: "fst (get_video_track room) = Inl e"
  then have e: "isinstance_Exception e"
    by (cases rule: get_video_track_cases [of room]) (auto simp: isinstance_Exception_def)
  from l have gv: "get_video_track room = (Inl e, snd (get_video_track room))"
    by (cases "get_video_track room") simp
  show "get_latest_image env room
        = (Inr None, snd (get_video_track room)
             @ [Log ERROR (''Failed to get latest image: '' @ exc_str e)])"
    by (subst get_latest_image_def, subst try_body_def, subst gv)
       (simp add: e except_Exception_def finally_aclose_def)
next
  assume h: "fst (get_video_track room) = Inr t \<and> open_stream env t = Some e
        \<and> isinstance_Exception e"
  then have gv: "get_video_track room = (Inr t, snd (get_video_track room))"
    by (cases "get_video_track room") simp
  show "get_latest_image env room
        = (Inr None, snd (get_video_track room)
             @ [Log ERROR (''Failed to get latest image: '' @ exc_str e)])"
    by (subst get_latest_image_def, subst try_body_def, subst gv)
       (simp add: h except_Exception_def finally_aclose_def)
next
  assume h: "fst (get_video_track room) = Inr t \<and> open_stream env t = None
        \<and> first_read env t = ReadRaised e \<and> isinstance_Exception e
        \<and> close_stream env t = None"
  then have gv: "get_video_track room = (Inr t, snd (get_video_track room))"
    by (cases "get_video_track room") simp
  show "get_latest_image env room
        = (Inr None, snd (get_video_track room)
             @ [StreamOpened t, Log ERROR (''Failed to get latest image: '' @ exc_str e),
                StreamClosed t])"
    by (subst get_latest_image_def, subst try_body_def, subst gv)
       (simp add: h except_Exception_def finally_aclose_def)
next
  assume p: "fst (get_latest_image env room) = Inl e \<and> (\<forall>s. close_stream env s = None)"
  obtain r vs fx where tb: "try_body env room = (r, vs, fx)"
    by (cases "try_body env room") auto
  from p have cl: "\<forall>s. close_stream env s = None" by simp
  from p tb have "fst (except_Exception r) = Inl e"
    by (simp add: get_latest_image_def finally_aclose_completes [OF cl] split: prod.splits)
  then show "\<not> isinstance_Exception e"
    by (cases r) (auto simp: except_Exception_def split: if_splits)
qed

theorem get_latest_image_catches_Exception_witness:
  "fst (get_video_track room_with_video) = Inr screen_share
   \<and> open_stream env_decode_error screen_share = None
   \<and> first_read env_decode_error screen_share = ReadRaised (Raised RuntimeError ''decode failed'')
   \<and> isinstance_Exception (Raised RuntimeError ''decode failed'')
   \<and> close_stream env_decode_error screen_share = None
   \<and> open_stream env_subscribe_error screen_share = Some (Raised RuntimeError ''ffi error'')
   \<and> isinstance_Exception (Raised RuntimeError ''ffi error'')
   \<and> fst (get_latest_image env_decode_error room_with_video) = Inr None
   \<and> fst (get_latest_image env_subscribe_error room_with_video) = Inr None
   \<and> fst (get_latest_image env_empty room_audio_only) = Inr None
   \<and> fst (get_latest_image env_cancelled room_with_video) = Inl (Raised CancelledError [])
   \<and> (\<forall>s. close_stream env_cancelled s = None)
   \<and> \<not> isinstance_Exception (Raised CancelledError [])"
proof -
  let ?cancel = "Raised CancelledError []"
  let ?lookup = "Raised ValueError ''No remote video track found in the room''"
  let ?ffi = "Raised RuntimeError ''ffi error''"
  let ?dec = "Raised RuntimeError ''decode failed''"
  have a: "fst (get_video_track room_audio_only) = Inl ?lookup"
    by (simp add: get_video_track_room_audio_only)
  have t: "fst (get_video_track room_with_video) = Inr screen_share"
    by (simp add: get_video_track_room_with_video)
  have b: "open_stream env_subscribe_error screen_share = Some ?ffi"
    by (simp add: env_subscribe_error_def)
  have b': "isinstance_Exception ?ffi"
    by (simp add: isinstance_Exception_def)
  have c: "open_stream env_decode_error screen_share = None"
    "first_read env_decode_error screen_share = ReadRaised ?dec"
    by (simp_all add: env_decode_error_def)
  have c': "isinstance_Exception ?dec"
    by (simp add: isinstance_Exception_def)
  have c'': "close_stream env_decode_error screen_share = None"
    by (simp add: env_decode_error_def)
  have r1: "fst (get_latest_image env_empty room_audio_only) = Inr None"
    using get_latest_image_catches_Exception [of room_audio_only ?lookup env_empty screen_share] a
    by (simp only: fst_conv)
  have r2: "fst (get_latest_image env_subscribe_error room_with_video) = Inr None"
    using get_latest_image_catches_Exception [of room_with_video ?ffi env_subscribe_error
        screen_share] t b b'
    by (simp only: fst_conv)
  have r3: "fst (get_latest_image env_decode_error room_with_video) = Inr None"
    using get_latest_image_catches_Exception [of room_with_video ?dec env_decode_error
        screen_share] t c c' c''
    by (simp only: fst_conv)
  have d: "fst (get_latest_image env_cancelled room_with_video) = Inl ?cancel"
    by (simp add: get_latest_image_env_cancelled)
  have d': "\<forall>s. close_stream env_cancelled s = None"
    by (simp add: env_cancelled_def)
  have r4: "\<not> isinstance_Exception ?cancel"
    using get_latest_image_catches_Exception [of room_with_video ?cancel env_cancelled
        screen_share] d d'
    by blast
  from t b b' c c' c'' r1 r2 r3 d d' r4 show ?thesis by (intro conjI)
qed

text \<open>
  The claim as stated, that no exception ever reaches the caller, fails when the read of
  the stream is cancelled: \<^verbatim>\<open>asyncio.CancelledError\<close> is not an \<^verbatim>\<open>Exception\<close>,
  the handler does not apply, and after \<^verbatim>\<open>finally\<close> the exception leaves the call.
\<close>

theorem get_latest_image_cancellation_propagates:
  "first_read env_cancelled screen_share = ReadRaised (Raised CancelledError [])
   \<and> fst (get_video_track room_with_video) = Inr screen_share
   \<and> fst (get_latest_image env_cancelled room_with_video) = Inl (Raised CancelledError [])
   \<and> fst (get_latest_image env_cancelled room_with_video) \<noteq> Inr None"
proof -
  have a: "first_read env_cancelled screen_share = ReadRaised (Raised CancelledError [])"
    by (simp add: env_cancelled_def)
  have b: "fst (get_video_track room_with_video) = Inr screen_share"
    by (simp add: get_video_track_room_with_video)
  have c: "fst (get_latest_image env_cancelled room_with_video) = Inl (Raised CancelledError [])"
    by (simp add: get_latest_image_env_cancelled)
  from a b c show ?thesis by simp
qed

subsection \<open>The hook \<^verbatim>\<open>before_llm_cb\<close>\<close>

text \<open>
  Claim C1. One call of \<^verbatim>\<open>before_llm_cb\<close> runs the frame capture once: the effects
  of the hook are those of one run of \<^verbatim>\<open>get_latest_image\<close>, followed by at most
  its own debug record. When the capture returns a frame, the hook appends to the end of
  the conversation context exactly one message, of role \<^verbatim>\<open>user\<close>, whose content
  is the single image that wraps the frame. When the capture returns \<^verbatim>\<open>None\<close>,
  the context is left as it was and the hook returns without an error.
\<close>

theorem before_llm_cb_attaches_frame:
  "(get_latest_image env room = (Inr (Some frame), fx) \<longrightarrow>
      before_llm_cb env room chat_ctx
        = (Inr (),
           chat_ctx\<lparr>messages := messages chat_ctx
              @ [\<lparr>role = User, content = Parts [ImagePart \<lparr>image = frame\<rparr>]\<rparr>]\<rparr>,
           fx @ [Log DEBUG ''Added latest frame to conversation context'']))
   \<and> (get_latest_image env room = (Inr None, fx) \<longrightarrow>
        before_llm_cb env room chat_ctx = (Inr (), chat_ctx, fx))
   \<and> (\<exists>logs. snd (snd (before_llm_cb env room chat_ctx)) = snd (get_latest_image env room) @ logs
        \<and> (logs = [] \<or> logs = [Log DEBUG ''Added latest frame to conversation context'']))"
proof (intro conjI impI)
  assume "get_latest_image env room = (Inr (Some frame), fx)"
  then show "before_llm_cb env room chat_ctx
        = (Inr (),
           chat_ctx\<lparr>messages := messages chat_ctx
              @ [\<lparr>role = User, content = Parts [ImagePart \<lparr>image = frame\<rparr>]\<rparr>]\<rparr>,
           fx @ [Log DEBUG ''Added latest frame to conversation context''])"
    by (simp add: before_llm_cb_def)
next
  assume "get_latest_image env room = (Inr None, fx)"
  then show "before_llm_cb env room chat_ctx = (Inr (), chat_ctx, fx)"
    by (simp add: before_llm_cb_def)
next
  obtain r fx' where g: "get_latest_image env room = (r, fx')"
    by (cases "get_latest_image env room")
  show "\<exists>logs. snd (snd (before_llm_cb env room chat_ctx)) = snd (get_latest_image env room) @ logs
        \<and> (logs = [] \<or> logs = [Log DEBUG ''Added latest frame to conversation context''])"
  proof (cases r)
    case (Inl e)
    with g show ?thesis by (simp add: before_llm_cb_def)
  next
    case (Inr v)
    with g show ?thesis by (cases v) (simp_all add: before_llm_cb_def)
  qed
qed

theorem before_llm_cb_attaches_frame_witness:
  "fst (get_latest_image env_frame room_with_video) = Inr (Some frame1)
   \<and> messages (fst (snd (before_llm_cb env_frame room_with_video initial_ctx)))
       = messages initial_ctx
           @ [\<lparr>role = User, content = Parts [ImagePart \<lparr>image = frame1\<rparr>]\<rparr>]
   \<and> fst (get_latest_image env_empty room_audio_only) = Inr None
   \<and> before_llm_cb env_empty room_audio_only initial_ctx
       = (Inr (), initial_ctx, snd (get_latest_image env_empty room_audio_only))"
proof -
  have a: "get_latest_image env_frame room_with_video
      = (Inr (Some frame1), snd (get_latest_image env_frame room_with_video))"
    by (simp add: get_latest_image_env_frame)
  have b: "get_latest_image env_empty room_audio_only
      = (Inr None, snd (get_latest_image env_empty room_audio_only))"
    by (simp add: get_latest_image_no_video)
  have c: "before_llm_cb env_frame room_with_video initial_ctx
      = (Inr (),
         initial_ctx\<lparr>messages := messages initial_ctx
            @ [\<lparr>role = User, content = Parts [ImagePart \<lparr>image = frame1\<rparr>]\<rparr>]\<rparr>,
         snd (get_latest_image env_frame room_with_video)
           @ [Log DEBUG ''Added latest frame to conversation context''])"
    using before_llm_cb_attaches_frame [of env_frame room_with_video frame1
        "snd (get_latest_image env_frame room_with_video)" initial_ctx] a
    by blast
  have d: "before_llm_cb env_empty room_audio_only initial_ctx
      = (Inr (), initial_ctx, snd (get_latest_image env_empty room_audio_only))"
    using before_llm_cb_attaches_frame [of env_empty room_audio_only frame1
        "snd (get_latest_image env_empty room_audio_only)" initial_ctx] b
    by blast
  have a': "fst (get_latest_image env_frame room_with_video) = Inr (Some frame1)"
    by (simp add: get_latest_image_env_frame)
  have b': "fst (get_latest_image env_empty room_audio_only) = Inr None"
    by (simp add: get_latest_image_no_video)
  have c': "messages (fst (snd (before_llm_cb env_frame room_with_video initial_ctx)))
       = messages initial_ctx
           @ [\<lparr>role = User, content = Parts [ImagePart \<lparr>image = frame1\<rparr>]\<rparr>]"
    by (subst c) simp
  from a' b' c' d show ?thesis by (intro conjI)
qed

subsection \<open>The conversation context\<close>

lemma before_llm_cb_appends:
  "\<exists>added. messages (fst (snd (before_llm_cb env room c))) = messages c @ added
     \<and> length added \<le> 1
     \<and> (\<forall>m \<in> set added. role m = User)"
proof -
  obtain r fx where g: "get_latest_image env room = (r, fx)"
    by (cases "get_latest_image env room")
  show ?thesis
  proof (cases r)
    case (Inl e)
    with g show ?thesis by (simp add: before_llm_cb_def)
  next
    case (Inr v)
    with g show ?thesis by (cases v) (simp_all add: before_llm_cb_def)
  qed
qed

lemma messages_initial_ctx:
  "messages initial_ctx = [\<lparr>role = System, content = Str system_prompt\<rparr>]"
  by (simp add: initial_ctx_def ChatContext_append_def ChatContext_def)

lemma reachable_starts_with_system:
  "reachable c \<Longrightarrow> \<exists>rest. messages c = \<lparr>role = System, content = Str system_prompt\<rparr> # rest
     \<and> (\<forall>m \<in> set rest. role m = User)"
proof (induction rule: reachable.induct)
  case reachable_initial
  show ?case by (simp add: messages_initial_ctx)
next
  case (reachable_hook c env room r c' fx)
  then obtain rest where rest: "messages c = \<lparr>role = System, content = Str system_prompt\<rparr> # rest"
    "\<forall>m \<in> set rest. role m = User" by blast
  from before_llm_cb_appends [of env room c] reachable_hook(2)
  obtain added where added: "messages c' = messages c @ added" "\<forall>m \<in> set added. role m = User"
    by auto
  from rest added have "messages c' = \<lparr>role = System, content = Str system_prompt\<rparr> # (rest @ added)"
    "\<forall>m \<in> set (rest @ added). role m = User"
    by auto
  then show ?case by blast
qed

text \<open>
  Claim C7. The entry point puts the system message into an empty context, so it is at
  position 0 before any other message exists, and it stays first in every context the
  module produces; no message after it has the role \<^verbatim>\<open>system\<close>. The mutation
  of the hook, on any context at all, appends at the end: the messages before the call
  are a prefix of the messages after it, in the same order, and at most one is added, so
  none is removed, replaced or moved.
\<close>

theorem reachable_system_first_append_only:
  "reachable c \<Longrightarrow>
     messages ChatContext = []
     \<and> messages initial_ctx = [\<lparr>role = System, content = Str system_prompt\<rparr>]
     \<and> (\<exists>rest. messages c = \<lparr>role = System, content = Str system_prompt\<rparr> # rest
          \<and> (\<forall>m \<in> set rest. role m \<noteq> System))
     \<and> (\<forall>env room c0. \<exists>added.
          messages (fst (snd (before_llm_cb env room c0))) = messages c0 @ added
          \<and> length added \<le> 1)"
proof -
  assume r: "reachable c"
  have a: "messages ChatContext = []" by (simp add: ChatContext_def)
  from reachable_starts_with_system [OF r]
  obtain rest where rest: "messages c = \<lparr>role = System, content = Str system_prompt\<rparr> # rest"
    "\<forall>m \<in> set rest. role m = User" by blast
  then have b: "\<exists>rest. messages c = \<lparr>role = System, content = Str system_prompt\<rparr> # rest
          \<and> (\<forall>m \<in> set rest. role m \<noteq> System)"
    by auto
  have c: "\<forall>env room c0. \<exists>added.
          messages (fst (snd (before_llm_cb env room c0))) = messages c0 @ added
          \<and> length added \<le> 1"
    using before_llm_cb_appends by blast
  from a messages_initial_ctx b c show ?thesis by (intro conjI)
qed

theorem reachable_system_first_append_only_witness:
  "reachable (fst (snd (before_llm_cb env_frame room_with_video initial_ctx)))
   \<and> (\<exists>rest. messages (fst (snd (before_llm_cb env_frame room_with_video initial_ctx)))
         = \<lparr>role = System, content = Str system_prompt\<rparr> # rest)"
proof -
  let ?c = "fst (snd (before_llm_cb env_frame room_with_video initial_ctx))"
  have "before_llm_cb env_frame room_with_video initial_ctx
      = (fst (before_llm_cb env_frame room_with_video initial_ctx), ?c,
         snd (snd (before_llm_cb env_frame room_with_video initial_ctx)))"
    by simp
  with reachable_initial have r: "reachable ?c" by (rule reachable_hook)
  from reachable_system_first_append_only [OF r] r show ?thesis by blast
qed

subsection \<open>The greeting\<close>

lemma entrypoint_cases:
  obtains (connect_failed) e where
      "entrypoint ctx = (Inl e, [Log INFO (''connecting to room '' @ name (job_room ctx)),
         Connect SUBSCRIBE_ALL])"
  | (wait_failed) e where
      "entrypoint ctx = (Inl e, [Log INFO (''connecting to room '' @ name (job_room ctx)),
         Connect SUBSCRIBE_ALL, WaitForParticipant])"
  | (no_vad) e identity where
      "entrypoint ctx = (Inl e, [Log INFO (''connecting to room '' @ name (job_room ctx)),
         Connect SUBSCRIBE_ALL, WaitForParticipant,
         Log INFO (''starting voice assistant for participant '' @ identity)])"
  | (started) identity where
      "entrypoint ctx = (Inr (), [Log INFO (''connecting to room '' @ name (job_room ctx)),
         Connect SUBSCRIBE_ALL, WaitForParticipant,
         Log INFO (''starting voice assistant for participant '' @ identity),
         CreateAgent agent_options, RegisterHandler ''metrics_collected'']
         @ [StartAgent (name (job_room ctx)) identity, Say ''Hey, how can I help you today?'' True])"
proof (cases "connect ctx")
  case (Some e)
  then show ?thesis by (intro connect_failed [of e]) (simp add: entrypoint_def)
next
  case None
  show ?thesis
  proof (cases "wait_for_participant ctx")
    case (Inl e)
    with None show ?thesis by (intro wait_failed [of e]) (simp add: entrypoint_def)
  next
    case (Inr identity)
    show ?thesis
    proof (cases "userdata_has_vad ctx")
      case False
      with None Inr show ?thesis
        by (intro no_vad [of _ identity]) (simp add: entrypoint_def)
    next
      case True
      with None Inr show ?thesis
        by (intro started [of identity]) (simp add: entrypoint_def greeting_def)
    qed
  qed
qed

text \<open>
  Claim C8. When the entry point has started the agent, the call that follows
  \<^verbatim>\<open>agent.start\<close> at once, with nothing in between that waits for a user turn, is
  \<^verbatim>\<open>agent.say\<close> with the greeting ``Hey, how can I help you today?'' and
  \<^verbatim>\<open>allow_interruptions=True\<close>. It is the only utterance the entry point makes,
  it is the last of its effects, and an entry point that returns has started the agent.
\<close>

theorem entrypoint_greets_once:
  "(\<forall>text allow. Say text allow \<in> set (snd (entrypoint ctx)) \<longrightarrow>
      text = ''Hey, how can I help you today?'' \<and> allow)
   \<and> (StartAgent r i \<in> set (snd (entrypoint ctx)) \<longrightarrow>
        (\<exists>pre. snd (entrypoint ctx)
            = pre @ [StartAgent r i, Say ''Hey, how can I help you today?'' True]
          \<and> (\<forall>text allow. Say text allow \<notin> set pre)))
   \<and> (fst (entrypoint ctx) = Inr () \<longrightarrow> (\<exists>r i. StartAgent r i \<in> set (snd (entrypoint ctx))))"
proof (cases rule: entrypoint_cases [of ctx])
  case (connect_failed e)
  then show ?thesis by simp
next
  case (wait_failed e)
  then show ?thesis by simp
next
  case (no_vad e identity)
  then show ?thesis by simp
next
  case (started identity)
  let ?pre = "[Log INFO (''connecting to room '' @ name (job_room ctx)),
         Connect SUBSCRIBE_ALL, WaitForParticipant,
         Log INFO (''starting voice assistant for participant '' @ identity),
         CreateAgent agent_options, RegisterHandler ''metrics_collected'']"
  let ?greet = "Say ''Hey, how can I help you today?'' True"
  let ?start = "StartAgent (name (job_room ctx)) identity"
  have fx: "snd (entrypoint ctx) = ?pre @ [?start, ?greet]"
    using started by simp
  have pre: "\<forall>text allow. Say text allow \<notin> set ?pre" by simp
  have c1: "\<forall>text allow. Say text allow \<in> set (?pre @ [?start, ?greet]) \<longrightarrow>
      text = ''Hey, how can I help you today?'' \<and> allow"
    by simp
  have c2: "\<exists>pre. ?pre @ [?start, ?greet] = pre @ [StartAgent r i, ?greet]
          \<and> (\<forall>text allow. Say text allow \<notin> set pre)"
    if "StartAgent r i \<in> set (?pre @ [?start, ?greet])"
  proof -
    from that have "StartAgent r i = ?start" by simp
    with pre show ?thesis by blast
  qed
  have c3: "\<exists>r i. StartAgent r i \<in> set (?pre @ [?start, ?greet])"
    by (intro exI [of _ "name (job_room ctx)"] exI [of _ identity]) simp
  show ?thesis unfolding fx using c1 c2 c3 by blast
qed

theorem entrypoint_greets_once_witness:
  "StartAgent ''demo'' ''bob'' \<in> set (snd (entrypoint job_ok))
   \<and> fst (entrypoint job_ok) = Inr ()
   \<and> (\<exists>pre. snd (entrypoint job_ok)
          = pre @ [StartAgent ''demo'' ''bob'', Say ''Hey, how can I help you today?'' True]
        \<and> (\<forall>text allow. Say text allow \<notin> set pre))"
proof -
  have e: "entrypoint job_ok = (Inr (), [Log INFO (''connecting to room '' @ ''demo''),
         Connect SUBSCRIBE_ALL, WaitForParticipant,
         Log INFO (''starting voice assistant for participant '' @ ''bob''),
         CreateAgent agent_options, RegisterHandler ''metrics_collected'',
         StartAgent ''demo'' ''bob'', Say greeting True])"
    by (simp add: entrypoint_def job_ok_def room_with_video_def)
  have a: "StartAgent ''demo'' ''bob'' \<in> set (snd (entrypoint job_ok))"
    by (subst e) simp
  have b: "fst (entrypoint job_ok) = Inr ()"
    by (subst e) simp
  from entrypoint_greets_once [of job_ok "''demo''" "''bob''"] a b
  show ?thesis by blast
qed

subsection \<open>Metrics\<close>

lemma handle_events_foldl:
  "foldl (\<lambda>st m. on_metrics_collected usage m st) st events
     = (fst st @ concat (map (\<lambda>m. [LogMetrics m, CollectMetrics m]) events),
        (snd st)\<lparr>aggregate := aggregate (snd st) + sum_list (map usage events)\<rparr>)"
proof (induction events arbitrary: st)
  case Nil
  show ?case by simp
next
  case (Cons m events)
  show ?case
    by (simp only: foldl_Cons Cons.IH)
       (simp add: on_metrics_collected_def collect_def add.assoc)
qed

lemma sum_list_map_mset:
  fixes usage :: "'m \<Rightarrow> 'u::comm_monoid_add"
  shows "mset xs = mset ys \<Longrightarrow> sum_list (map usage xs) = sum_list (map usage ys)"
proof -
  assume "mset xs = mset ys"
  then have "mset (map usage xs) = mset (map usage ys)" by simp
  then have "sum_mset (mset (map usage xs)) = sum_mset (mset (map usage ys))" by (rule arg_cong)
  then show ?thesis by (simp only: sum_mset_sum_list)
qed

text \<open>
  Claim C9. Every event that \<^verbatim>\<open>on_metrics_collected\<close> receives is logged and then
  passed to \<^verbatim>\<open>collect\<close>, in the order of arrival, none dropped and none filtered.
  With the collector of the spec, the report after a session is the sum of the usage of
  all its events: each further event adds its usage to the total (nothing is evicted),
  and two sessions with the same events in another order report the same total.
\<close>

theorem on_metrics_collected_delivers_all:
  fixes usage :: "'m \<Rightarrow> 'u::comm_monoid_add"
  shows "fst (handle_events usage events) = concat (map (\<lambda>m. [LogMetrics m, CollectMetrics m]) events)
   \<and> report (snd (handle_events usage events)) = sum_list (map usage events)
   \<and> report (snd (handle_events usage (events @ [m])))
       = report (snd (handle_events usage events)) + usage m
   \<and> (\<forall>events'. mset events' = mset events \<longrightarrow>
        report (snd (handle_events usage events')) = report (snd (handle_events usage events)))"
proof -
  have r: "report (snd (handle_events usage es)) = sum_list (map usage es)" for es
    by (simp add: handle_events_def handle_events_foldl report_def UsageCollector_def)
  have a: "fst (handle_events usage events) = concat (map (\<lambda>m. [LogMetrics m, CollectMetrics m]) events)"
    by (simp add: handle_events_def handle_events_foldl)
  have c: "report (snd (handle_events usage (events @ [m])))
       = report (snd (handle_events usage events)) + usage m"
    by (simp add: r)
  have d: "\<forall>events'. mset events' = mset events \<longrightarrow>
        report (snd (handle_events usage events')) = report (snd (handle_events usage events))"
    by (auto simp: r intro: sum_list_map_mset)
  from a r [of events] c d show ?thesis by (intro conjI)
qed

theorem on_metrics_collected_delivers_all_witness:
  "mset [5, 3, 3::nat] = mset [3, 5, 3]
   \<and> report (snd (handle_events (\<lambda>n. n) [5, 3, 3::nat])) = 11
   \<and> report (snd (handle_events (\<lambda>n. n) [3, 5, 3::nat])) = 11
   \<and> fst (handle_events (\<lambda>n. n) [3, 5::nat])
       = [LogMetrics 3, CollectMetrics 3, LogMetrics 5, CollectMetrics 5]"
proof -
  have p: "mset [5, 3, 3::nat] = mset [3, 5, 3]" by simp
  have a: "report (snd (handle_events (\<lambda>n. n) [3, 5, 3::nat])) = 11"
    using on_metrics_collected_delivers_all [of "\<lambda>n::nat. n" "[3, 5, 3]" 0] by simp
  have b: "report (snd (handle_events (\<lambda>n. n) [5, 3, 3::nat]))
      = report (snd (handle_events (\<lambda>n. n) [3, 5, 3::nat]))"
    using on_metrics_collected_delivers_all [of "\<lambda>n::nat. n" "[3, 5, 3]" 0] p by blast
  have c: "fst (handle_events (\<lambda>n. n) [3, 5::nat])
       = [LogMetrics 3, CollectMetrics 3, LogMetrics 5, CollectMetrics 5]"
    using on_metrics_collected_delivers_all [of "\<lambda>n::nat. n" "[3, 5]" 0] by simp
  from p a b c show ?thesis by simp
qed

end
